theory Spec2Isabelle
  imports Main
begin

section \<open>Errors of the library\<close>

text \<open>
  The error classes of the library that the modelled code throws. \<open>EmptyArrayError\<close>
  keeps the array it was created with (its \<open>emptyArray\<close> field), \<open>UnsupportedPlatform\<close>
  keeps the platform name, and \<open>Error\<close> is the plain JavaScript error with its message.
\<close>

datatype 'a error =
    EmptyArrayError "'a list"
  | UnsupportedPlatform string
  | Error string

section \<open>RoundRobinChoiceStrategy\<close>

text \<open>
  The strategy owns a \<open>WeakMap\<close> from array objects to a box \<open>{ index }\<close>. A weak map
  is keyed by object identity, so an array is passed to the model as a pair: its identity
  (a reference of type \<open>ref\<close>) and its elements at the time of the call. The box is only
  reachable through the map, so incrementing \<open>choice.index\<close> in place is an update of
  the map at that key.
\<close>

type_synonym ref = nat

record RoundRobinChoiceStrategy =
  choices :: "ref \<rightharpoonup> nat"

definition new_RoundRobinChoiceStrategy :: RoundRobinChoiceStrategy where
  "new_RoundRobinChoiceStrategy = \<lparr> choices = Map.empty \<rparr>"

text \<open>
  \<open>chooseOne\<close> returns the thrown error, or the chosen element together with the
  strategy after the call. Every read \<open>array[k]\<close> of the source is guarded here by the
  same test that guards it there (\<open>array.length \<noteq> 0\<close> for \<open>array[0]\<close>, and
  \<open>++choice.index < array.length\<close> for \<open>array[choice.index]\<close>).
\<close>

definition chooseOne ::
  "RoundRobinChoiceStrategy \<Rightarrow> ref \<Rightarrow> 'a list \<Rightarrow> 'a error + ('a \<times> RoundRobinChoiceStrategy)" where
  "chooseOne this r array =
     (if length array = 0 then Inl (EmptyArrayError array)
      else case choices this r of
        None \<Rightarrow> Inr (array ! 0, this\<lparr>choices := (choices this)(r \<mapsto> 0)\<rparr>)
      | Some index \<Rightarrow>
          if Suc index < length array
          then Inr (array ! Suc index, this\<lparr>choices := (choices this)(r \<mapsto> Suc index)\<rparr>)
          else Inr (array ! 0, this\<lparr>choices := (choices this)(r \<mapsto> 0)\<rparr>))"

text \<open>
  A caller that calls \<open>chooseOne\<close> several times, with any arrays, in sequence: each call
  sees the strategy the previous call left. A call that throws leaves the strategy as it
  was (the throw precedes every write).
\<close>

definition after_call ::
  "RoundRobinChoiceStrategy \<Rightarrow> ref \<times> 'a list \<Rightarrow> RoundRobinChoiceStrategy" where
  "after_call this c =
     (case chooseOne this (fst c) (snd c) of Inl e \<Rightarrow> this | Inr (x, this') \<Rightarrow> this')"

definition after_calls ::
  "RoundRobinChoiceStrategy \<Rightarrow> (ref \<times> 'a list) list \<Rightarrow> RoundRobinChoiceStrategy" where
  "after_calls this cs = foldl after_call this cs"

definition calls_with :: "ref \<Rightarrow> (ref \<times> 'a list) list \<Rightarrow> nat" where
  "calls_with r cs = length (filter (\<lambda>c. fst c = r) cs)"

definition chosen :: "'a error + ('a \<times> RoundRobinChoiceStrategy) \<Rightarrow> 'a error + 'a" where
  "chosen res = (case res of Inl e \<Rightarrow> Inl e | Inr (x, this') \<Rightarrow> Inr x)"

section \<open>JavaScript values\<close>

text \<open>
  \<open>cacheResolverFailure\<close> and \<open>useExpiredCache\<close> take an \<open>error: unknown\<close>, so the model
  needs the JavaScript values themselves. An object is the list of its properties, own
  and inherited alike, read with \<open>map_of\<close>; a function is an object whose \<open>typeof\<close> is
  \<open>"function"\<close>. The payload of a number plays no part below and is an integer here.
  Property reads have no effect in the model: objects with getters or proxies, whose
  \<open>code\<close> could differ from one read to the next, are outside it.
\<close>

datatype jsval =
    JUndefined
  | JNull
  | JBoolean bool
  | JNumber int
  | JBigInt int
  | JString string
  | JSymbol string
  | JFunction "(string \<times> jsval) list"
  | JObject "(string \<times> jsval) list"

fun typeof :: "jsval \<Rightarrow> string" where
  "typeof JUndefined = ''undefined''"
| "typeof JNull = ''object''"
| "typeof (JBoolean b) = ''boolean''"
| "typeof (JNumber n) = ''number''"
| "typeof (JBigInt n) = ''bigint''"
| "typeof (JString s) = ''string''"
| "typeof (JSymbol s) = ''symbol''"
| "typeof (JFunction ps) = ''function''"
| "typeof (JObject ps) = ''object''"

fun properties :: "jsval \<Rightarrow> (string \<times> jsval) list" where
  "properties (JObject ps) = ps"
| "properties (JFunction ps) = ps"
| "properties v = []"

definition js_in :: "string \<Rightarrow> jsval \<Rightarrow> bool" where
  "js_in k v = (map_of (properties v) k \<noteq> None)"

definition js_get :: "jsval \<Rightarrow> string \<Rightarrow> jsval" where
  "js_get v k = (case map_of (properties v) k of None \<Rightarrow> JUndefined | Some x \<Rightarrow> x)"

text \<open>
  Truthiness of a \<open>string | undefined\<close>, as \<open>code && \<dots>\<close> and \<open>!path\<close> test it:
  \<open>undefined\<close> and the empty string are falsy, every other string is truthy.
\<close>

definition truthy :: "string option \<Rightarrow> bool" where
  "truthy s = (case s of None \<Rightarrow> False | Some cs \<Rightarrow> cs \<noteq> [])"

section \<open>UniversalFailoverStrategy\<close>

text \<open>
  The error codes come from \<open>node:dns\<close>, which exports them as these strings.
\<close>

definition CONNREFUSED :: string where "CONNREFUSED = ''ECONNREFUSED''"
definition NOTFOUND :: string where "NOTFOUND = ''ENOTFOUND''"
definition REFUSED :: string where "REFUSED = ''EREFUSED''"
definition SERVFAIL :: string where "SERVFAIL = ''ESERVFAIL''"
definition TIMEOUT :: string where "TIMEOUT = ''ETIMEOUT''"

text \<open>
  Every option may be absent; so may the options object itself (the parameter defaults
  to \<open>{}\<close>). The four fields of the strategy are the options with the defaults of the
  constructor's destructuring pattern filled in.
\<close>

record UniversalFailoverStrategyOptions =
  cacheErrorCodes_option :: "string list option"
  cacheErrorTtlMs_option :: "int option"
  cacheMaxExpirationMs_option :: "int option"
  useExpiredCacheOnErrorCodes_option :: "string list option"

record UniversalFailoverStrategy =
  cacheErrorCodes :: "string list"
  cacheErrorTtlMs :: int
  cacheMaxExpirationMs :: int
  useExpiredCacheOnErrorCodes :: "string list"

definition no_options :: UniversalFailoverStrategyOptions where
  "no_options = \<lparr> cacheErrorCodes_option = None, cacheErrorTtlMs_option = None,
                   cacheMaxExpirationMs_option = None,
                   useExpiredCacheOnErrorCodes_option = None \<rparr>"

definition new_UniversalFailoverStrategy ::
  "UniversalFailoverStrategyOptions option \<Rightarrow> UniversalFailoverStrategy" where
  "new_UniversalFailoverStrategy options =
     (let opts = (case options of None \<Rightarrow> no_options | Some given \<Rightarrow> given) in
      \<lparr> cacheErrorCodes =
          (case cacheErrorCodes_option opts of
             None \<Rightarrow> [CONNREFUSED, NOTFOUND, REFUSED, SERVFAIL, TIMEOUT]
           | Some v \<Rightarrow> v),
        cacheErrorTtlMs =
          (case cacheErrorTtlMs_option opts of None \<Rightarrow> 1000 | Some v \<Rightarrow> v),
        cacheMaxExpirationMs =
          (case cacheMaxExpirationMs_option opts of None \<Rightarrow> 3600000 | Some v \<Rightarrow> v),
        useExpiredCacheOnErrorCodes =
          (case useExpiredCacheOnErrorCodes_option opts of
             None \<Rightarrow> [CONNREFUSED, NOTFOUND, REFUSED, SERVFAIL, TIMEOUT]
           | Some v \<Rightarrow> v) \<rparr>)"

text \<open>The two results: \<open>false\<close>, or an object with one number.\<close>

datatype cacheResolverFailure_result = Cache_false | Cache_ttlMs int

datatype useExpiredCache_result = Expired_false | Expired_maxExpirationMs int

definition getErrorCode :: "jsval \<Rightarrow> string option" where
  "getErrorCode error =
     (if typeof error = ''object'' \<and> error \<noteq> JNull \<and> js_in ''code'' error
         \<and> typeof (js_get error ''code'') = ''string''
      then (case js_get error ''code'' of JString code \<Rightarrow> Some code | other \<Rightarrow> None)
      else None)"

text \<open>
  \<open>list.includes(code)\<close> compares strings by value; it is reached only for a truthy
  \<open>code\<close>, and is \<open>False\<close> here for \<open>undefined\<close>.
\<close>

definition array_includes :: "string list \<Rightarrow> string option \<Rightarrow> bool" where
  "array_includes codes code = (case code of None \<Rightarrow> False | Some s \<Rightarrow> s \<in> set codes)"

definition cacheResolverFailure ::
  "UniversalFailoverStrategy \<Rightarrow> jsval \<Rightarrow> cacheResolverFailure_result" where
  "cacheResolverFailure this error =
     (let code = getErrorCode error in
      if truthy code \<and> array_includes (cacheErrorCodes this) code
      then Cache_ttlMs (cacheErrorTtlMs this)
      else Cache_false)"

definition useExpiredCache ::
  "UniversalFailoverStrategy \<Rightarrow> jsval \<Rightarrow> useExpiredCache_result" where
  "useExpiredCache this error =
     (let code = getErrorCode error in
      if truthy code \<and> array_includes (useExpiredCacheOnErrorCodes this) code
      then Expired_maxExpirationMs (cacheMaxExpirationMs this)
      else Expired_false)"

text \<open>
  Options for the examples below: both code lists hold the empty string, the string
  \<open>"undefined"\<close> and \<open>"7"\<close>.
\<close>

definition example_options :: UniversalFailoverStrategyOptions where
  "example_options =
     \<lparr> cacheErrorCodes_option = Some [''undefined'', [], ''7''],
       cacheErrorTtlMs_option = Some 5000,
       cacheMaxExpirationMs_option = None,
       useExpiredCacheOnErrorCodes_option = Some [''undefined'', [], ''7''] \<rparr>"

section \<open>UniversalHostsFileService\<close>

text \<open>
  The value of a single-quoted string literal, from the characters between its quotes:
  a backslash and the character after it stand for one character, a control character
  for \<open>b f n r t v 0\<close> and the character itself otherwise. (Hexadecimal and Unicode
  escapes and line continuations, which the literals of this module do not use, are not
  covered.)
\<close>

definition escaped :: "char \<Rightarrow> char" where
  "escaped c =
     (if c = CHR ''b'' then CHR 0x08
      else if c = CHR ''f'' then CHR 0x0C
      else if c = CHR ''n'' then CHR 0x0A
      else if c = CHR ''r'' then CHR 0x0D
      else if c = CHR ''t'' then CHR 0x09
      else if c = CHR ''v'' then CHR 0x0B
      else if c = CHR ''0'' then CHR 0x00
      else c)"

fun string_value :: "string \<Rightarrow> string" where
  "string_value [] = []"
| "string_value [c] = [c]"
| "string_value (c # d # cs) =
     (if c = CHR 0x5C then escaped d # string_value cs else c # string_value (d # cs))"

text \<open>
  The characters of the literal in the \<open>win32\<close> case, as the source file has them: a
  single backslash before \<open>Windows\<close>, \<open>System32\<close>, \<open>drivers\<close>, \<open>etc\<close> and \<open>hosts\<close>.
\<close>

definition win32_literal :: string where
  "win32_literal = ''C:'' @ [CHR 0x5C] @ ''Windows'' @ [CHR 0x5C] @ ''System32'' @ [CHR 0x5C]
     @ ''drivers'' @ [CHR 0x5C] @ ''etc'' @ [CHR 0x5C] @ ''hosts''"

record UniversalHostsFileServiceOptions =
  path_option :: "string option"

record UniversalHostsFileService =
  path :: string

text \<open>
  The constructor, with the result of \<open>platform()\<close> as its first argument. The last
  branch is reached only with a path that is present and not empty.
\<close>

definition new_UniversalHostsFileService ::
  "string \<Rightarrow> UniversalHostsFileServiceOptions option \<Rightarrow> 'a error + UniversalHostsFileService" where
  "new_UniversalHostsFileService platform options =
     (let given = (case options of None \<Rightarrow> None | Some opts \<Rightarrow> path_option opts) in
      if \<not> truthy given
      then
        (if platform = ''darwin'' \<or> platform = ''linux'' then Inr \<lparr> path = ''/etc/hosts'' \<rparr>
         else if platform = ''win32'' then Inr \<lparr> path = string_value win32_literal \<rparr>
         else Inl (UnsupportedPlatform platform))
      else Inr \<lparr> path = the given \<rparr>)"

text \<open>
  The path that the documentation of the \<open>path\<close> option gives for Windows.
\<close>

definition documented_win32_path :: string where
  "documented_win32_path = ''C:'' @ [CHR 0x5C] @ ''Windows'' @ [CHR 0x5C] @ ''System32''
     @ [CHR 0x5C] @ ''drivers'' @ [CHR 0x5C] @ ''etc'' @ [CHR 0x5C] @ ''hosts''"

section \<open>LookupController\<close>

datatype family = Family int | IPv4 | IPv6

datatype lookup_order = Ipv4first | Ipv6first | Verbatim

record LookupOptions =
  all_option :: "bool option"
  family_option :: "family option"
  hints_option :: "nat option"
  order_option :: "lookup_order option"
  verbatim_option :: "bool option"

text \<open>The flag \<open>dns.V4MAPPED\<close> (the \<open>AI_V4MAPPED\<close> of the platform; 8 on Linux).\<close>

definition V4MAPPED :: nat where "V4MAPPED = 8"

datatype LookupResult = Address string | Addresses "string list"

text \<open>
  The call \<open>lookup("1.2.3.4", { family: 6, hints: V4MAPPED })\<close> passes these options.
\<close>

definition family6_v4mapped :: LookupOptions where
  "family6_v4mapped =
     \<lparr> all_option = None, family_option = Some (Family 6), hints_option = Some V4MAPPED,
       order_option = None, verbatim_option = None \<rparr>"

text \<open>
  The controller holds its eight collaborators; each is an interface in the source and a
  type parameter here. The persistent storage and the throttling strategy may be \<open>null\<close>.
\<close>

record ('cache, 'choice, 'failover, 'hosts, 'isip, 'storage, 'resolver, 'throttling)
    LookupController =
  cacheService :: 'cache
  choiceStrategy :: 'choice
  failoverStrategy :: 'failover
  hostsFileService :: 'hosts
  isIpService :: 'isip
  persistentStorageService :: "'storage option"
  resolverService :: 'resolver
  throttlingStrategy :: "'throttling option"

text \<open>
  What a caller of \<open>lookup\<close> can observe: the call throws, or it returns a promise that
  is rejected or fulfilled, or it returns nothing and the callback receives an error or
  a result.
\<close>

datatype 'a lookup_outcome =
    Throws "'a error"
  | Rejects "'a error"
  | Fulfils LookupResult
  | Callback_error "'a error"
  | Callback_result LookupResult

text \<open>
  The calls that a run of \<open>lookup\<close> makes to the choice strategy and to the resolver, in
  order, with their arguments.
\<close>

datatype 'a collaborator_call =
    Call_chooseOne "'a list"
  | Call_resolve4 string
  | Call_resolve6 string

text \<open>
  The body of \<open>lookup\<close> in the source is the single statement
  \<open>throw new Error('Method not implemented.')\<close>; the method is not \<open>async\<close>, so the
  error is thrown to the caller. No collaborator is called. The model returns what the
  caller observes and the list of calls made.
\<close>

definition lookup ::
  "('cache, 'choice, 'failover, 'hosts, 'isip, 'storage, 'resolver, 'throttling) LookupController
   \<Rightarrow> string \<Rightarrow> (LookupOptions + 'callback) option \<Rightarrow> 'callback option
   \<Rightarrow> 'a lookup_outcome \<times> 'a collaborator_call list" where
  "lookup this hostname optionsOrCallback maybeCallback =
     (Throws (Error ''Method not implemented.''), [])"

section \<open>Properties of RoundRobinChoiceStrategy\<close>

lemma after_call_other:
  "fst c \<noteq> r \<Longrightarrow> choices (after_call this c) r = choices this r"
  by (cases c) (simp add: after_call_def chooseOne_def split: option.splits)

lemma after_call_same_first:
  "a \<noteq> [] \<Longrightarrow> choices this r = None \<Longrightarrow> choices (after_call this (r, a)) r = Some 0"
  by (simp add: after_call_def chooseOne_def)

lemma after_call_same_next:
  "a \<noteq> [] \<Longrightarrow> choices this r = Some i \<Longrightarrow>
   choices (after_call this (r, a)) r = Some (if Suc i < length a then Suc i else 0)"
  by (simp add: after_call_def chooseOne_def)

lemma suc_mod_step:
  fixes k n :: nat
  assumes "0 < n"
  shows "(if Suc (k mod n) < n then Suc (k mod n) else 0) = Suc k mod n"
proof (cases "Suc (k mod n) < n")
  case True
  then show ?thesis by (simp add: mod_Suc)
next
  case False
  with assms have "Suc (k mod n) = n"
    using mod_less_divisor [of n k] by linarith
  then show ?thesis by (simp add: mod_Suc)
qed

lemma choices_after_calls:
  assumes "a \<noteq> []" and "choices this r = None"
    and "\<forall>c \<in> set cs. fst c = r \<longrightarrow> snd c = a"
  shows "choices (after_calls this cs) r =
         (if calls_with r cs = 0 then None else Some ((calls_with r cs - 1) mod length a))"
  using assms(3)
proof (induction cs rule: rev_induct)
  case Nil
  then show ?case by (simp add: after_calls_def calls_with_def assms(2))
next
  case (snoc c cs)
  then have IH: "choices (after_calls this cs) r =
         (if calls_with r cs = 0 then None else Some ((calls_with r cs - 1) mod length a))"
    by simp
  have step: "after_calls this (cs @ [c]) = after_call (after_calls this cs) c"
    by (simp add: after_calls_def)
  show ?case
  proof (cases "fst c = r")
    case False
    then have "calls_with r (cs @ [c]) = calls_with r cs"
      by (simp add: calls_with_def)
    with False IH step show ?thesis
      by (simp add: after_call_other)
  next
    case True
    with snoc.prems have c: "c = (r, a)"
      by (cases c) simp
    have cnt: "calls_with r (cs @ [c]) = Suc (calls_with r cs)"
      using True by (simp add: calls_with_def)
    show ?thesis
    proof (cases "calls_with r cs = 0")
      case True
      with IH have "choices (after_calls this cs) r = None" by simp
      then show ?thesis
        using step c cnt True assms(1) by (simp add: after_call_same_first)
    next
      case False
      then obtain k where k: "calls_with r cs = Suc k"
        by (cases "calls_with r cs") auto
      with IH have "choices (after_calls this cs) r = Some (k mod length a)" by simp
      then have "choices (after_call (after_calls this cs) (r, a)) r =
                 Some (if Suc (k mod length a) < length a then Suc (k mod length a) else 0)"
        using assms(1) by (rule after_call_same_next [rotated])
      also have "\<dots> = Some (Suc k mod length a)"
        using suc_mod_step [of "length a" k] assms(1) by simp
      finally show ?thesis
        using step c cnt k by simp
    qed
  qed
qed

lemma chosen_from_choices:
  assumes "a \<noteq> []"
  shows "chosen (chooseOne this r a) =
         Inr (a ! (case choices this r of None \<Rightarrow> 0
                   | Some i \<Rightarrow> if Suc i < length a then Suc i else 0))"
  using assms by (simp add: chosen_def chooseOne_def split: option.splits)

text \<open>
  C1. Take an array instance \<open>r\<close> with the \<open>n > 0\<close> elements \<open>a\<close> that the strategy has
  not seen yet, and any sequence \<open>cs\<close> of earlier calls in which every call with \<open>r\<close>
  found the same elements \<open>a\<close> (calls with other arrays may come in between). If \<open>i\<close> of
  the earlier calls were with \<open>r\<close>, the next call with \<open>r\<close> is its \<open>i\<close>-th (counted from 0)
  and returns \<open>a[i mod n]\<close>: element 0 first, then the next one each time, wrapping to
  element 0 after the last.
\<close>

theorem chooseOne_round_robin:
  assumes "a \<noteq> []" and "choices this r = None"
    and "\<forall>c \<in> set cs. fst c = r \<longrightarrow> snd c = a"
  shows "chosen (chooseOne (after_calls this cs) r a) = Inr (a ! (calls_with r cs mod length a))"
proof (cases "calls_with r cs")
  case 0
  with choices_after_calls [OF assms] show ?thesis
    using assms(1) by (simp add: chosen_from_choices)
next
  case (Suc k)
  with choices_after_calls [OF assms]
  have "choices (after_calls this cs) r = Some (k mod length a)" by simp
  then have "chosen (chooseOne (after_calls this cs) r a) =
             Inr (a ! (if Suc (k mod length a) < length a then Suc (k mod length a) else 0))"
    using assms(1) by (simp add: chosen_from_choices)
  also have "\<dots> = Inr (a ! (Suc k mod length a))"
    using suc_mod_step [of "length a" k] assms(1) by simp
  finally show ?thesis using Suc by simp
qed

theorem chooseOne_round_robin_witness:
  "[''a'', ''b'', ''c''] \<noteq> [] \<and> choices new_RoundRobinChoiceStrategy 7 = None \<and>
   map snd (filter (\<lambda>c. fst c = (7::nat))
     [(7, [''a'', ''b'', ''c'']), (3, [''x'']), (7, [''a'', ''b'', ''c'']),
      (3, []), (7, [''a'', ''b'', ''c''])])
     = [[''a'', ''b'', ''c''], [''a'', ''b'', ''c''], [''a'', ''b'', ''c'']] \<and>
   chosen (chooseOne
     (after_calls new_RoundRobinChoiceStrategy
        [(7, [''a'', ''b'', ''c'']), (3, [''x'']), (7, [''a'', ''b'', ''c'']),
         (3, []), (7, [''a'', ''b'', ''c''])])
     7 [''a'', ''b'', ''c'']) = Inr ''a''"
  using chooseOne_round_robin [of "[''a'', ''b'', ''c'']" new_RoundRobinChoiceStrategy 7
    "[(7, [''a'', ''b'', ''c'']), (3, [''x'']), (7, [''a'', ''b'', ''c'']),
      (3, []), (7, [''a'', ''b'', ''c''])]"]
  by (simp add: new_RoundRobinChoiceStrategy_def calls_with_def)

text \<open>
  The scenario of the specification, run on the model itself: with the array
  \<open>["a", "b", "c"]\<close> a new strategy answers \<open>"a"\<close>, \<open>"b"\<close>, \<open>"c"\<close> and then \<open>"a"\<close> again.
\<close>

lemma round_robin_scenario:
  "map (\<lambda>i. chosen (chooseOne
          (after_calls new_RoundRobinChoiceStrategy (replicate i (1, [''a'', ''b'', ''c''])))
          1 [''a'', ''b'', ''c'']))
     [0, 1, 2, 3]
   = [Inr ''a'', Inr ''b'', Inr ''c'', Inr ''a'']"
  by (simp add: new_RoundRobinChoiceStrategy_def after_calls_def after_call_def
      chooseOne_def chosen_def numeral_2_eq_2 numeral_3_eq_3)

text \<open>
  C5. \<open>chooseOne\<close> throws exactly when the array has no element, and what it throws is
  the \<open>EmptyArrayError\<close> made from that array; for a non-empty array it returns one of
  the array's elements, whatever the strategy has recorded before.
\<close>

theorem chooseOne_throws_iff_empty:
  "((\<exists>e. chooseOne this r array = Inl e) \<longleftrightarrow> array = []) \<and>
   (array = [] \<longrightarrow> chooseOne this r array = Inl (EmptyArrayError array)) \<and>
   (array \<noteq> [] \<longrightarrow> (\<exists>x this'. chooseOne this r array = Inr (x, this') \<and> x \<in> set array))"
proof (cases "array = []")
  case True
  then show ?thesis by (simp add: chooseOne_def)
next
  case False
  then have "0 < length array" by simp
  then show ?thesis
    using False by (auto simp: chooseOne_def split: option.splits)
qed

theorem chooseOne_throws_iff_empty_witness:
  "chooseOne new_RoundRobinChoiceStrategy 1 ([] :: string list) = Inl (EmptyArrayError []) \<and>
   [''a'', ''b''] \<noteq> [] \<and>
   (\<exists>x this'. chooseOne \<lparr>choices = [1 \<mapsto> 0]\<rparr> 1 [''a'', ''b''] = Inr (x, this') \<and>
      x \<in> set [''a'', ''b''])"
  using chooseOne_throws_iff_empty [of new_RoundRobinChoiceStrategy 1 "[] :: string list"]
    chooseOne_throws_iff_empty [of "\<lparr>choices = [1 \<mapsto> 0]\<rparr>" 1 "[''a'', ''b'']"]
  by simp

section \<open>Properties of UniversalFailoverStrategy\<close>

lemma js_get_string_in:
  "js_get error k = JString code \<Longrightarrow> js_in k error"
  by (auto simp: js_get_def js_in_def split: option.splits)

lemma js_get_JNull: "js_get JNull k = JUndefined"
  by (simp add: js_get_def)

lemma typeof_string_iff: "typeof v = ''string'' \<longleftrightarrow> (\<exists>s. v = JString s)"
  by (cases v) simp_all

lemma getErrorCode_textual:
  assumes "typeof error = ''object''" and "js_get error ''code'' = JString code"
  shows "getErrorCode error = Some code"
proof -
  from assms(2) have "error \<noteq> JNull"
    by (auto simp: js_get_JNull)
  moreover from assms(2) have "js_in ''code'' error"
    by (rule js_get_string_in)
  ultimately show ?thesis
    using assms by (simp add: getErrorCode_def)
qed

lemma getErrorCode_Some:
  "getErrorCode error = Some code \<Longrightarrow> js_get error ''code'' = JString code"
  by (auto simp: getErrorCode_def typeof_string_iff split: if_splits)

lemma getErrorCode_unknown:
  assumes "typeof error \<noteq> ''object'' \<or> error = JNull \<or> \<not> js_in ''code'' error
           \<or> typeof (js_get error ''code'') \<noteq> ''string''"
  shows "getErrorCode error = None"
  using assms by (auto simp: getErrorCode_def)

lemma default_cacheErrorCodes:
  "cacheErrorCodes (new_UniversalFailoverStrategy None) =
     [CONNREFUSED, NOTFOUND, REFUSED, SERVFAIL, TIMEOUT]"
  by (simp add: new_UniversalFailoverStrategy_def no_options_def)

lemma default_cacheErrorTtlMs:
  "cacheErrorTtlMs (new_UniversalFailoverStrategy None) = 1000"
  by (simp add: new_UniversalFailoverStrategy_def no_options_def)

lemma default_cacheMaxExpirationMs:
  "cacheMaxExpirationMs (new_UniversalFailoverStrategy None) = 3600000"
  by (simp add: new_UniversalFailoverStrategy_def no_options_def)

lemma default_useExpiredCacheOnErrorCodes:
  "useExpiredCacheOnErrorCodes (new_UniversalFailoverStrategy None) =
     [CONNREFUSED, NOTFOUND, REFUSED, SERVFAIL, TIMEOUT]"
  by (simp add: new_UniversalFailoverStrategy_def no_options_def)

text \<open>Passing the empty object \<open>{}\<close> is the same as passing nothing.\<close>

lemma empty_options_are_no_options:
  "new_UniversalFailoverStrategy (Some no_options) = new_UniversalFailoverStrategy None"
  by (simp add: new_UniversalFailoverStrategy_def)

lemma cacheResolverFailure_code:
  "getErrorCode error = Some code \<Longrightarrow>
   cacheResolverFailure this error =
     (if code \<noteq> [] \<and> code \<in> set (cacheErrorCodes this)
      then Cache_ttlMs (cacheErrorTtlMs this) else Cache_false)"
  by (simp add: cacheResolverFailure_def truthy_def array_includes_def)

lemma useExpiredCache_code:
  "getErrorCode error = Some code \<Longrightarrow>
   useExpiredCache this error =
     (if code \<noteq> [] \<and> code \<in> set (useExpiredCacheOnErrorCodes this)
      then Expired_maxExpirationMs (cacheMaxExpirationMs this) else Expired_false)"
  by (simp add: useExpiredCache_def truthy_def array_includes_def)

lemma default_codes_nonempty:
  "code \<in> set [CONNREFUSED, NOTFOUND, REFUSED, SERVFAIL, TIMEOUT] \<Longrightarrow> code \<noteq> []"
  by (auto simp: CONNREFUSED_def NOTFOUND_def REFUSED_def SERVFAIL_def TIMEOUT_def)

text \<open>
  C2. Let the strategy be constructed with no options and let \<open>error\<close> be an object
  whose \<open>code\<close> property is the string \<open>code\<close>. If \<open>code\<close> is one of \<open>CONNREFUSED\<close>,
  \<open>NOTFOUND\<close>, \<open>REFUSED\<close>, \<open>SERVFAIL\<close>, \<open>TIMEOUT\<close>, then \<open>cacheResolverFailure\<close> returns
  \<open>{ ttlMs: 1000 }\<close>; if \<open>code\<close> is a non-empty string outside that set, it returns
  \<open>false\<close>. (The method of the source takes the error only; a second argument, the host,
  is ignored by the call.)
\<close>

theorem cacheResolverFailure_default:
  assumes "typeof error = ''object''" and "js_get error ''code'' = JString code"
  shows "(code \<in> {CONNREFUSED, NOTFOUND, REFUSED, SERVFAIL, TIMEOUT} \<longrightarrow>
            cacheResolverFailure (new_UniversalFailoverStrategy None) error = Cache_ttlMs 1000) \<and>
         (code \<noteq> [] \<and> code \<notin> {CONNREFUSED, NOTFOUND, REFUSED, SERVFAIL, TIMEOUT} \<longrightarrow>
            cacheResolverFailure (new_UniversalFailoverStrategy None) error = Cache_false)"
proof -
  have code: "getErrorCode error = Some code"
    using assms by (rule getErrorCode_textual)
  show ?thesis
    using default_codes_nonempty [of code]
    by (simp add: cacheResolverFailure_code [OF code] default_cacheErrorCodes
        default_cacheErrorTtlMs)
qed

theorem cacheResolverFailure_default_witness:
  "typeof (JObject [(''message'', JString ''queryA ETIMEOUT example.com''),
                    (''code'', JString ''ETIMEOUT'')]) = ''object'' \<and>
   js_get (JObject [(''message'', JString ''queryA ETIMEOUT example.com''),
                    (''code'', JString ''ETIMEOUT'')]) ''code'' = JString ''ETIMEOUT'' \<and>
   ''ETIMEOUT'' \<in> {CONNREFUSED, NOTFOUND, REFUSED, SERVFAIL, TIMEOUT} \<and>
   cacheResolverFailure (new_UniversalFailoverStrategy None)
     (JObject [(''message'', JString ''queryA ETIMEOUT example.com''),
               (''code'', JString ''ETIMEOUT'')]) = Cache_ttlMs 1000 \<and>
   typeof (JObject [(''code'', JString ''ENODATA'')]) = ''object'' \<and>
   js_get (JObject [(''code'', JString ''ENODATA'')]) ''code'' = JString ''ENODATA'' \<and>
   ''ENODATA'' \<noteq> [] \<and> ''ENODATA'' \<notin> {CONNREFUSED, NOTFOUND, REFUSED, SERVFAIL, TIMEOUT} \<and>
   cacheResolverFailure (new_UniversalFailoverStrategy None)
     (JObject [(''code'', JString ''ENODATA'')]) = Cache_false"
  using cacheResolverFailure_default
      [of "JObject [(''message'', JString ''queryA ETIMEOUT example.com''),
                    (''code'', JString ''ETIMEOUT'')]" "''ETIMEOUT''"]
    cacheResolverFailure_default [of "JObject [(''code'', JString ''ENODATA'')]" "''ENODATA''"]
  by (simp add: js_get_def CONNREFUSED_def NOTFOUND_def REFUSED_def SERVFAIL_def TIMEOUT_def)

text \<open>
  C3. Let the strategy be constructed with no options and let \<open>error\<close> be an object
  whose \<open>code\<close> property is the string \<open>code\<close>. If \<open>code\<close> is one of \<open>CONNREFUSED\<close>,
  \<open>NOTFOUND\<close>, \<open>REFUSED\<close>, \<open>SERVFAIL\<close>, \<open>TIMEOUT\<close>, then \<open>useExpiredCache\<close> returns
  \<open>{ maxExpirationMs: 3600000 }\<close>, one hour; if \<open>code\<close> is a non-empty string outside
  that set, it returns \<open>false\<close>.
\<close>

theorem useExpiredCache_default:
  assumes "typeof error = ''object''" and "js_get error ''code'' = JString code"
  shows "(code \<in> {CONNREFUSED, NOTFOUND, REFUSED, SERVFAIL, TIMEOUT} \<longrightarrow>
            useExpiredCache (new_UniversalFailoverStrategy None) error
              = Expired_maxExpirationMs 3600000) \<and>
         (code \<noteq> [] \<and> code \<notin> {CONNREFUSED, NOTFOUND, REFUSED, SERVFAIL, TIMEOUT} \<longrightarrow>
            useExpiredCache (new_UniversalFailoverStrategy None) error = Expired_false)"
proof -
  have code: "getErrorCode error = Some code"
    using assms by (rule getErrorCode_textual)
  show ?thesis
    using default_codes_nonempty [of code]
    by (simp add: useExpiredCache_code [OF code] default_useExpiredCacheOnErrorCodes
        default_cacheMaxExpirationMs)
qed

theorem useExpiredCache_default_witness:
  "typeof (JObject [(''code'', JString ''ESERVFAIL''),
                    (''hostname'', JString ''example.com'')]) = ''object'' \<and>
   js_get (JObject [(''code'', JString ''ESERVFAIL''),
                    (''hostname'', JString ''example.com'')]) ''code'' = JString ''ESERVFAIL'' \<and>
   ''ESERVFAIL'' \<in> {CONNREFUSED, NOTFOUND, REFUSED, SERVFAIL, TIMEOUT} \<and>
   useExpiredCache (new_UniversalFailoverStrategy None)
     (JObject [(''code'', JString ''ESERVFAIL''), (''hostname'', JString ''example.com'')])
     = Expired_maxExpirationMs (60 * 60 * 1000) \<and>
   typeof (JObject [(''code'', JString ''EBADNAME'')]) = ''object'' \<and>
   js_get (JObject [(''code'', JString ''EBADNAME'')]) ''code'' = JString ''EBADNAME'' \<and>
   ''EBADNAME'' \<noteq> [] \<and> ''EBADNAME'' \<notin> {CONNREFUSED, NOTFOUND, REFUSED, SERVFAIL, TIMEOUT} \<and>
   useExpiredCache (new_UniversalFailoverStrategy None)
     (JObject [(''code'', JString ''EBADNAME'')]) = Expired_false"
  using useExpiredCache_default
      [of "JObject [(''code'', JString ''ESERVFAIL''), (''hostname'', JString ''example.com'')]"
          "''ESERVFAIL''"]
    useExpiredCache_default [of "JObject [(''code'', JString ''EBADNAME'')]" "''EBADNAME''"]
  by (simp add: js_get_def CONNREFUSED_def NOTFOUND_def REFUSED_def SERVFAIL_def TIMEOUT_def)

text \<open>
  C4. If \<open>error\<close> is not an object, or is \<open>null\<close>, or has no \<open>code\<close> property, or has a
  \<open>code\<close> that is not a string, then \<open>cacheResolverFailure\<close> and \<open>useExpiredCache\<close> both
  return \<open>false\<close>, whatever options the strategy was constructed with.
\<close>

theorem unknown_error_both_false:
  assumes "typeof error \<noteq> ''object'' \<or> error = JNull \<or> \<not> js_in ''code'' error
           \<or> typeof (js_get error ''code'') \<noteq> ''string''"
  shows "cacheResolverFailure (new_UniversalFailoverStrategy options) error = Cache_false \<and>
         useExpiredCache (new_UniversalFailoverStrategy options) error = Expired_false"
proof -
  have "getErrorCode error = None"
    using assms by (rule getErrorCode_unknown)
  then show ?thesis
    by (simp add: cacheResolverFailure_def useExpiredCache_def truthy_def)
qed

theorem unknown_error_both_false_witness:
  "typeof (JString ''ETIMEOUT'') \<noteq> ''object'' \<and>
   cacheResolverFailure (new_UniversalFailoverStrategy (Some example_options))
     (JString ''ETIMEOUT'') = Cache_false \<and>
   useExpiredCache (new_UniversalFailoverStrategy (Some example_options))
     (JString ''ETIMEOUT'') = Expired_false \<and>
   cacheResolverFailure (new_UniversalFailoverStrategy (Some example_options)) JNull
     = Cache_false \<and>
   useExpiredCache (new_UniversalFailoverStrategy (Some example_options)) JNull
     = Expired_false \<and>
   \<not> js_in ''code'' (JObject [(''message'', JString ''ETIMEOUT'')]) \<and>
   cacheResolverFailure (new_UniversalFailoverStrategy (Some example_options))
     (JObject [(''message'', JString ''ETIMEOUT'')]) = Cache_false \<and>
   useExpiredCache (new_UniversalFailoverStrategy (Some example_options))
     (JObject [(''message'', JString ''ETIMEOUT'')]) = Expired_false \<and>
   typeof (js_get (JObject [(''code'', JNumber 7)]) ''code'') \<noteq> ''string'' \<and>
   cacheResolverFailure (new_UniversalFailoverStrategy (Some example_options))
     (JObject [(''code'', JNumber 7)]) = Cache_false \<and>
   useExpiredCache (new_UniversalFailoverStrategy (Some example_options))
     (JObject [(''code'', JNumber 7)]) = Expired_false"
  using unknown_error_both_false [of "JString ''ETIMEOUT''" "Some example_options"]
    unknown_error_both_false [of JNull "Some example_options"]
    unknown_error_both_false
      [of "JObject [(''message'', JString ''ETIMEOUT'')]" "Some example_options"]
    unknown_error_both_false [of "JObject [(''code'', JNumber 7)]" "Some example_options"]
  by (simp add: js_in_def js_get_def)

text \<open>
  C10. If the \<open>code\<close> of \<open>error\<close> is the empty string, then \<open>cacheResolverFailure\<close> and
  \<open>useExpiredCache\<close> both return \<open>false\<close>, whatever options the strategy was constructed
  with, and so also when the empty string is in \<open>cacheErrorCodes\<close> or in
  \<open>useExpiredCacheOnErrorCodes\<close>: the empty string is falsy, and the test of the code
  comes before the test of membership.
\<close>

theorem empty_code_both_false:
  assumes "js_get error ''code'' = JString []"
  shows "cacheResolverFailure (new_UniversalFailoverStrategy options) error = Cache_false \<and>
         useExpiredCache (new_UniversalFailoverStrategy options) error = Expired_false"
proof (cases "getErrorCode error")
  case None
  then show ?thesis
    by (simp add: cacheResolverFailure_def useExpiredCache_def truthy_def)
next
  case (Some code)
  then have "js_get error ''code'' = JString code"
    by (rule getErrorCode_Some)
  with assms have "code = []" by simp
  with Some show ?thesis
    by (simp add: cacheResolverFailure_code useExpiredCache_code)
qed

theorem empty_code_both_false_witness:
  "js_get (JObject [(''code'', JString [])]) ''code'' = JString [] \<and>
   [] \<in> set (cacheErrorCodes (new_UniversalFailoverStrategy (Some example_options))) \<and>
   [] \<in> set (useExpiredCacheOnErrorCodes
               (new_UniversalFailoverStrategy (Some example_options))) \<and>
   cacheResolverFailure (new_UniversalFailoverStrategy (Some example_options))
     (JObject [(''code'', JString [])]) = Cache_false \<and>
   useExpiredCache (new_UniversalFailoverStrategy (Some example_options))
     (JObject [(''code'', JString [])]) = Expired_false"
  using empty_code_both_false [of "JObject [(''code'', JString [])]" "Some example_options"]
  by (simp add: js_get_def new_UniversalFailoverStrategy_def example_options_def)

text \<open>
  The same strategy does honour a non-empty code of its lists, so the two results above
  are due to the empty code and not to the options.
\<close>

lemma configured_codes_are_honoured:
  "cacheResolverFailure (new_UniversalFailoverStrategy (Some example_options))
     (JObject [(''code'', JString ''7'')]) = Cache_ttlMs 5000 \<and>
   useExpiredCache (new_UniversalFailoverStrategy (Some example_options))
     (JObject [(''code'', JString ''7'')]) = Expired_maxExpirationMs 3600000"
  by (simp add: cacheResolverFailure_def useExpiredCache_def getErrorCode_def js_in_def
      js_get_def truthy_def array_includes_def new_UniversalFailoverStrategy_def
      example_options_def)

text \<open>
  For \<open>typeof\<close> a function is not an object, so a function that carries a \<open>code\<close> is
  an unknown error as well.
\<close>

lemma function_with_code_is_unknown:
  "cacheResolverFailure (new_UniversalFailoverStrategy None)
     (JFunction [(''code'', JString ''ETIMEOUT'')]) = Cache_false \<and>
   useExpiredCache (new_UniversalFailoverStrategy None)
     (JFunction [(''code'', JString ''ETIMEOUT'')]) = Expired_false"
  by (simp add: cacheResolverFailure_def useExpiredCache_def getErrorCode_def truthy_def)

section \<open>Properties of UniversalHostsFileService\<close>

lemma win32_literal_value:
  "string_value win32_literal = ''C:WindowsSystem32driversetchosts''"
  by (simp add: win32_literal_def escaped_def)

lemma default_path_unix:
  "platform = ''linux'' \<or> platform = ''darwin'' \<Longrightarrow>
   new_UniversalHostsFileService platform None = Inr \<lparr> path = ''/etc/hosts'' \<rparr>"
  by (auto simp: new_UniversalHostsFileService_def truthy_def)

lemma default_path_unsupported:
  "platform \<notin> {''linux'', ''darwin'', ''win32''} \<Longrightarrow>
   new_UniversalHostsFileService platform None = Inl (UnsupportedPlatform platform)"
  by (auto simp: new_UniversalHostsFileService_def truthy_def)

lemma explicit_path_is_kept:
  "p \<noteq> [] \<Longrightarrow>
   new_UniversalHostsFileService platform (Some \<lparr> path_option = Some p \<rparr>) = Inr \<lparr> path = p \<rparr>"
  by (simp add: new_UniversalHostsFileService_def truthy_def)

text \<open>
  C7. Without a \<open>path\<close> option the constructor is to set \<open>path\<close> to \<open>/etc/hosts\<close> on
  \<open>linux\<close> and \<open>darwin\<close>, to \<open>C:\Windows\System32\drivers\etc\hosts\<close> on \<open>win32\<close>, and to
  throw \<open>UnsupportedPlatform\<close> elsewhere. On \<open>linux\<close>, \<open>darwin\<close> and the other platforms
  it does (the lemmas \<open>default_path_unix\<close> and \<open>default_path_unsupported\<close>). On
  \<open>win32\<close> the literal of the source has single backslashes, each of which escapes the
  letter after it, so the path that is set has no backslash at all and differs from
  the documented one.
\<close>

theorem win32_default_path_lacks_backslashes:
  "new_UniversalHostsFileService ''win32'' None
     = Inr \<lparr> path = ''C:WindowsSystem32driversetchosts'' \<rparr> \<and>
   new_UniversalHostsFileService ''win32'' None \<noteq> Inr \<lparr> path = documented_win32_path \<rparr>"
  by (simp add: new_UniversalHostsFileService_def truthy_def win32_literal_value
      documented_win32_path_def)

section \<open>Properties of LookupController\<close>

text \<open>
  C8. \<open>lookup("1.2.3.4", { family: 6, hints: V4MAPPED })\<close> is to succeed with
  \<open>"::ffff:1.2.3.4"\<close> and no resolver call. The source makes no resolver call, but it
  does not succeed: the call throws \<open>Error('Method not implemented.')\<close>, as \<open>lookup\<close>
  does for every hostname and all options.
\<close>

theorem lookup_v4mapped_throws:
  "lookup this ''1.2.3.4'' (Some (Inl family6_v4mapped)) None
     = (Throws (Error ''Method not implemented.''), []) \<and>
   fst (lookup this ''1.2.3.4'' (Some (Inl family6_v4mapped)) None)
     \<noteq> Fulfils (Address ''::ffff:1.2.3.4'')"
  by (simp add: lookup_def)

end
